theory Spec2Isabelle
  imports Main "HOL-Library.Word"
begin

section \<open>Strings and values of the platform\<close>

text \<open>
  A JavaScript string is a sequence of UTF-16 code units. The page's own texts are
  Japanese; they are written below as their code units, each with the line of
  \<^verbatim>\<open>src/app/products/[id]/page.tsx\<close> it comes from and an English gloss.
\<close>

type_synonym jsstring = "16 word list"

definition ascii :: "string \<Rightarrow> jsstring" where
  "ascii s = map of_char s"

text \<open>
  A JavaScript value as the page observes it. The page only tests such values for
  truthiness and converts them to strings, so a value is given by these two readings:
  \<open>Falsy\<close> is undefined (also a property that is absent), null, false, 0 or NaN;
  \<open>Str s\<close> is the string \<open>s\<close>, falsy when empty; \<open>Truthy t\<close> is any other truthy
  value (a non-zero number, true, an object, an array), whose conversion to a string is
  \<open>t\<close>.
\<close>

datatype jsval = Falsy | Str jsstring | Truthy jsstring

fun truthy :: "jsval \<Rightarrow> bool" where
  "truthy Falsy = False"
| "truthy (Str s) = (s \<noteq> [])"
| "truthy (Truthy t) = True"

text \<open>\<open>orElse v d\<close> is the string that \<^verbatim>\<open>v || d\<close> converts to, for a string \<open>d\<close>.\<close>

fun orElse :: "jsval \<Rightarrow> jsstring \<Rightarrow> jsstring" where
  "orElse Falsy d = d"
| "orElse (Str s) d = (if s = [] then d else s)"
| "orElse (Truthy t) d = t"

text \<open>
  What a \<^verbatim>\<open>catch\<close> clause receives: null or undefined, or a value whose
  \<^verbatim>\<open>message\<close> property reads as given. \<^verbatim>\<open>new Error(m)\<close> is \<open>newError m\<close>.
\<close>

datatype thrown = ThrownNullish | Thrown jsval

definition newError :: "jsstring \<Rightarrow> thrown" where
  "newError m = Thrown (Str m)"

subsection \<open>encodeURIComponent\<close>

text \<open>
  The built-in of ECMAScript: the letters, the digits and \<^verbatim>\<open>- _ . ! ~ * ' ( )\<close> are kept,
  any other code point is written as the bytes of its UTF-8 encoding, each as \<^verbatim>\<open>%XX\<close>
  in upper-case hexadecimal, and a surrogate that is not part of a pair raises URIError.
\<close>

datatype failure = URIError | TypeError

definition isUnreserved :: "16 word \<Rightarrow> bool" where
  "isUnreserved c \<longleftrightarrow>
     (0x41 \<le> c \<and> c \<le> 0x5A) \<or> (0x61 \<le> c \<and> c \<le> 0x7A) \<or> (0x30 \<le> c \<and> c \<le> 0x39)
     \<or> c \<in> set (ascii ''-_.!~*()'') \<or> c = 0x27"

definition isLeadSurrogate :: "16 word \<Rightarrow> bool" where
  "isLeadSurrogate c \<longleftrightarrow> 0xD800 \<le> c \<and> c \<le> 0xDBFF"

definition isTrailSurrogate :: "16 word \<Rightarrow> bool" where
  "isTrailSurrogate c \<longleftrightarrow> 0xDC00 \<le> c \<and> c \<le> 0xDFFF"

definition pairCodePoint :: "16 word \<Rightarrow> 16 word \<Rightarrow> nat" where
  "pairCodePoint lead trail = 0x10000 + (unat lead - 0xD800) * 0x400 + (unat trail - 0xDC00)"

definition utf8 :: "nat \<Rightarrow> nat list" where
  "utf8 cp =
     (if cp < 0x80 then [cp]
      else if cp < 0x800 then [0xC0 + cp div 0x40, 0x80 + cp mod 0x40]
      else if cp < 0x10000 then
        [0xE0 + cp div 0x1000, 0x80 + (cp div 0x40) mod 0x40, 0x80 + cp mod 0x40]
      else
        [0xF0 + cp div 0x40000, 0x80 + (cp div 0x1000) mod 0x40,
         0x80 + (cp div 0x40) mod 0x40, 0x80 + cp mod 0x40])"

definition hexDigit :: "nat \<Rightarrow> 16 word" where
  "hexDigit d = (if d < 10 then of_nat (0x30 + d) else of_nat (0x41 + (d - 10)))"

definition percentEncode :: "nat list \<Rightarrow> jsstring" where
  "percentEncode bytes = concat (map (\<lambda>b. [0x25, hexDigit (b div 16), hexDigit (b mod 16)]) bytes)"

definition prepend :: "jsstring \<Rightarrow> failure + jsstring \<Rightarrow> failure + jsstring" where
  "prepend xs r = (case r of Inl e \<Rightarrow> Inl e | Inr ys \<Rightarrow> Inr (xs @ ys))"

fun encodeURIComponent :: "jsstring \<Rightarrow> failure + jsstring" where
  "encodeURIComponent [] = Inr []"
| "encodeURIComponent (c # cs) =
     (if isUnreserved c then prepend [c] (encodeURIComponent cs)
      else if isTrailSurrogate c then Inl URIError
      else if isLeadSurrogate c then
        (case cs of
           [] \<Rightarrow> Inl URIError
         | d # ds \<Rightarrow>
             if isTrailSurrogate d
             then prepend (percentEncode (utf8 (pairCodePoint c d))) (encodeURIComponent ds)
             else Inl URIError)
      else prepend (percentEncode (utf8 (unat c))) (encodeURIComponent cs))"

text \<open>\<^verbatim>\<open>String.prototype.isWellFormed\<close>: every surrogate is part of a pair.\<close>

fun isWellFormed :: "jsstring \<Rightarrow> bool" where
  "isWellFormed [] = True"
| "isWellFormed (c # cs) =
     (if isLeadSurrogate c then
        (case cs of [] \<Rightarrow> False | d # ds \<Rightarrow> isTrailSurrogate d \<and> isWellFormed ds)
      else \<not> isTrailSurrogate c \<and> isWellFormed cs)"

section \<open>Data model\<close>

text \<open>
  A record of the catalog \<^verbatim>\<open>@/data/products\<close>, with the fields the page reads.
  Prices and the stock count are integers. \<open>idP\<close> is the field \<^verbatim>\<open>id\<close>.
\<close>

record product =
  idP :: jsstring
  name :: jsstring
  description :: jsstring
  price :: int
  subscriptionPrice :: "int option"
  stock :: int
  category :: jsstring
  images :: "jsstring list"
  features :: "jsstring list option"
  isSubscription :: bool

datatype purchase_type = OneTime | Subscription

text \<open>The five \<^verbatim>\<open>useState\<close> cells of lines 16 to 20, with their initial values.\<close>

record uiState =
  activeImageIndex :: nat
  purchaseType :: purchase_type
  isLoading :: bool
  error :: jsstring
  stripeAvailable :: bool

definition initialState :: uiState where
  "initialState =
     \<lparr>activeImageIndex = 0, purchaseType = OneTime, isLoading = False, error = [],
      stripeAvailable = False\<rparr>"

subsection \<open>The texts of the page\<close>

text \<open>Line 51, the heading of the not-found view: "The product was not found".\<close>

definition notFoundHeading :: jsstring where
  "notFoundHeading =
     [0x5546, 0x54C1, 0x304C, 0x898B, 0x3064, 0x304B, 0x308A, 0x307E, 0x305B, 0x3093, 0x3067,
      0x3057, 0x305F]"

text \<open>Line 56, the label of its button: "Go back to the previous page".\<close>

definition goBackLabel :: jsstring where
  "goBackLabel = [0x524D, 0x306E, 0x30DA, 0x30FC, 0x30B8, 0x306B, 0x623B, 0x308B]"

text \<open>
  Line 80: "The payment system has not been set up. Please contact the administrator."
\<close>

definition configurationMessage :: jsstring where
  "configurationMessage =
     [0x6C7A, 0x6E08, 0x30B7, 0x30B9, 0x30C6, 0x30E0, 0x306E, 0x8A2D, 0x5B9A, 0x304C, 0x5B8C,
      0x4E86, 0x3057, 0x3066, 0x3044, 0x307E, 0x305B, 0x3093, 0x3002, 0x7BA1, 0x7406, 0x8005,
      0x306B, 0x304A, 0x554F, 0x3044, 0x5408, 0x308F, 0x305B, 0x304F, 0x3060, 0x3055, 0x3044,
      0x3002]"

text \<open>Line 124: "Creating the payment session failed".\<close>

definition sessionFailedMessage :: jsstring where
  "sessionFailedMessage =
     [0x6C7A, 0x6E08, 0x30BB, 0x30C3, 0x30B7, 0x30E7, 0x30F3, 0x306E, 0x4F5C, 0x6210, 0x306B,
      0x5931, 0x6557, 0x3057, 0x307E, 0x3057, 0x305F]"

text \<open>Line 138: "The session ID could not be obtained".\<close>

definition missingSessionIdMessage :: jsstring where
  "missingSessionIdMessage =
     [0x30BB, 0x30C3, 0x30B7, 0x30E7, 0x30F3, 0x49, 0x44, 0x304C, 0x53D6, 0x5F97, 0x3067,
      0x304D, 0x307E, 0x305B, 0x3093, 0x3067, 0x3057, 0x305F]"

text \<open>Line 147: "Initialising Stripe failed. Please check the settings of your browser."\<close>

definition stripeInitFailedMessage :: jsstring where
  "stripeInitFailedMessage =
     [0x53, 0x74, 0x72, 0x69, 0x70, 0x65, 0x306E, 0x521D, 0x671F, 0x5316, 0x306B, 0x5931,
      0x6557, 0x3057, 0x307E, 0x3057, 0x305F, 0x3002, 0x30D6, 0x30E9, 0x30A6, 0x30B6, 0x306E,
      0x8A2D, 0x5B9A, 0x3092, 0x78BA, 0x8A8D, 0x3057, 0x3066, 0x304F, 0x3060, 0x3055, 0x3044,
      0x3002]"

text \<open>Line 158: "Redirecting to the checkout page failed".\<close>

definition redirectFailedMessage :: jsstring where
  "redirectFailedMessage =
     [0x30C1, 0x30A7, 0x30C3, 0x30AF, 0x30A2, 0x30A6, 0x30C8, 0x30DA, 0x30FC, 0x30B8, 0x3078,
      0x306E, 0x30EA, 0x30C0, 0x30A4, 0x30EC, 0x30AF, 0x30C8, 0x306B, 0x5931, 0x6557, 0x3057,
      0x307E, 0x3057, 0x305F]"

text \<open>
  Line 162, the template up to its interpolation: "An error occurred while processing the
  payment: ", ending in a colon and a space.
\<close>

definition errorPrefix :: jsstring where
  "errorPrefix =
     [0x6C7A, 0x6E08, 0x51E6, 0x7406, 0x4E2D, 0x306B, 0x30A8, 0x30E9, 0x30FC, 0x304C, 0x767A,
      0x751F, 0x3057, 0x307E, 0x3057, 0x305F, 0x3A, 0x20]"

text \<open>Lines 256 and 266, the two purchase modes: "single purchase", "regular purchase".\<close>

definition oneTimeLabel :: jsstring where
  "oneTimeLabel = [0x5358, 0x54C1, 0x8CFC, 0x5165]"

definition subscriptionLabel :: jsstring where
  "subscriptionLabel = [0x5B9A, 0x671F, 0x8CFC, 0x5165]"

text \<open>Line 285, the three labels of the checkout button: "Processing...", "Out of stock", "Buy".\<close>

definition processingLabel :: jsstring where
  "processingLabel = [0x51E6, 0x7406, 0x4E2D, 0x2E, 0x2E, 0x2E]"

definition outOfStockLabel :: jsstring where
  "outOfStockLabel = [0x5728, 0x5EAB, 0x5207, 0x308C]"

definition buyLabel :: jsstring where
  "buyLabel = [0x8CFC, 0x5165, 0x3059, 0x308B]"

section \<open>The product resolver\<close>

text \<open>
  Line 45, \<^verbatim>\<open>products.find(p => p.id === id)\<close>: the first record of the catalog whose
  identifier is the route identifier, \<open>None\<close> for undefined.
\<close>

definition resolveProduct :: "product list \<Rightarrow> jsstring \<Rightarrow> product option" where
  "resolveProduct products ident = find (\<lambda>p. idP p = ident) products"

section \<open>The payment availability check\<close>

text \<open>
  Lines 23 to 42, the effect run on mount. \<open>ProbeReturns b\<close>: \<^verbatim>\<open>checkStripeConfig()\<close>
  returns a value of truthiness \<open>b\<close>; \<open>ProbeThrows\<close>: it throws. Console output is left out
  here and below.
\<close>

datatype probe = ProbeReturns bool | ProbeThrows

fun checkStripe :: "probe \<Rightarrow> uiState \<Rightarrow> uiState" where
  "checkStripe (ProbeReturns isAvailable) s =
     (if isAvailable then s\<lparr>stripeAvailable := True\<rparr> else s\<lparr>stripeAvailable := False\<rparr>)"
| "checkStripe ProbeThrows s = s\<lparr>stripeAvailable := False\<rparr>"

section \<open>The checkout orchestrator\<close>

subsection \<open>The collaborators\<close>

text \<open>
  The request of lines 102 to 121. The body is kept as the object given to
  \<^verbatim>\<open>JSON.stringify\<close>: one line item and the purchase mode.
\<close>

record item =
  itemName :: jsstring
  itemDescription :: jsstring
  itemImages :: "jsstring list"
  itemPrice :: int
  quantity :: nat

record request =
  url :: jsstring
  httpMethod :: jsstring
  headers :: "(jsstring \<times> jsstring) list"
  items :: "item list"
  bodyPurchaseType :: purchase_type

text \<open>
  The parsed body of a response, as the page reads it: a falsy value, or a truthy one with
  its properties \<^verbatim>\<open>error\<close> and \<^verbatim>\<open>sessionId\<close> (\<open>Falsy\<close> where the property is absent).
  The body \<^verbatim>\<open>{ error: "out of stock" }\<close> is \<open>JsonValue (Str (ascii ''out of stock'')) Falsy\<close>.
\<close>

datatype json = JsonFalsy | JsonValue jsval jsval

text \<open>
  Every awaited promise resolves, rejects, or stays pending (a request that hangs; also
  the page as it is shown while the promise is not settled yet).
\<close>

datatype json_result = JsonResolved json | JsonRejected thrown | JsonPending

datatype response = Response (ok: bool) (json: json_result)

datatype fetch_result = FetchResolved response | FetchRejected thrown | FetchPending

text \<open>
  \<^verbatim>\<open>result.error\<close> of the resolved redirect: \<open>None\<close> when falsy, else \<open>Some m\<close> where
  \<open>m\<close> is what its \<^verbatim>\<open>message\<close> reads.
\<close>

datatype redirect_result =
  RedirectResolved "jsval option" | RedirectRejected thrown | RedirectPending

datatype stripe = Stripe (redirectToCheckout: "jsval \<Rightarrow> redirect_result")

datatype getStripe_result =
  GetStripeResolved "stripe option" | GetStripeRejected thrown | GetStripePending

datatype user = User jsstring

text \<open>
  What a run of \<^verbatim>\<open>handleCheckout\<close> meets: the current user of the authentication
  context, the configured site URL, the origin of the window (\<open>None\<close> when there is no
  window), the remote endpoint and the payment client factory.
\<close>

record env =
  user :: "user option"
  NEXT_PUBLIC_SITE_URL :: "jsstring option"
  windowOrigin :: "jsstring option"
  fetch :: "request \<Rightarrow> fetch_result"
  getStripe :: getStripe_result

text \<open>The calls a run makes on its collaborators, in order.\<close>

datatype effect =
    RouterPush jsstring
  | FetchCall request
  | GetStripeCall
  | RedirectToCheckoutCall jsval

datatype completion = Returned | Pending | Rejected failure

record outcome =
  finalState :: uiState
  effects :: "effect list"
  completion :: completion

subsection \<open>Building the request\<close>

text \<open>Lines 92 and 93.\<close>

definition baseUrl :: "env \<Rightarrow> jsstring" where
  "baseUrl e =
     (case NEXT_PUBLIC_SITE_URL e of
        Some u \<Rightarrow> if u \<noteq> [] then u else (case windowOrigin e of Some w \<Rightarrow> w | None \<Rightarrow> [])
      | None \<Rightarrow> (case windowOrigin e of Some w \<Rightarrow> w | None \<Rightarrow> []))"

text \<open>Lines 89 to 97; \<open>0x2F\<close> is the slash.\<close>

definition productImages :: "env \<Rightarrow> product \<Rightarrow> jsstring list" where
  "productImages e p =
     map (\<lambda>img. case img of
                  c # cs \<Rightarrow> if c = 0x2F then baseUrl e @ img else img
                | [] \<Rightarrow> img)
         (images p)"

text \<open>Lines 113 to 115: a subscription price of 0 is falsy, as an absent one.\<close>

definition checkoutPrice :: "product \<Rightarrow> purchase_type \<Rightarrow> int" where
  "checkoutPrice p t =
     (case subscriptionPrice p of
        Some sp \<Rightarrow> if t = Subscription \<and> sp \<noteq> 0 then sp else price p
      | None \<Rightarrow> price p)"

definition checkoutRequest :: "env \<Rightarrow> product \<Rightarrow> uiState \<Rightarrow> request" where
  "checkoutRequest e p s =
     \<lparr>url = ascii ''/api/create-checkout-session'',
      httpMethod = ascii ''POST'',
      headers = [(ascii ''Content-Type'', ascii ''application/json'')],
      items =
        [\<lparr>itemName = name p,
          itemDescription = (if description p \<noteq> [] then description p else []),
          itemImages = (if length (productImages e p) > 0 then productImages e p else []),
          itemPrice = checkoutPrice p (purchaseType s),
          quantity = 1\<rparr>],
      bodyPurchaseType = purchaseType s\<rparr>"

subsection \<open>The body of the try block\<close>

datatype try_result = Completed | Suspended | Raised thrown

text \<open>Lines 152 to 159.\<close>

definition redirectStep :: "stripe \<Rightarrow> jsval \<Rightarrow> try_result" where
  "redirectStep st sessionId =
     (case redirectToCheckout st sessionId of
        RedirectPending \<Rightarrow> Suspended
      | RedirectRejected t \<Rightarrow> Raised t
      | RedirectResolved None \<Rightarrow> Completed
      | RedirectResolved (Some m) \<Rightarrow> Raised (newError (orElse m redirectFailedMessage)))"

text \<open>Lines 145 to 159.\<close>

definition stripeStep :: "env \<Rightarrow> jsval \<Rightarrow> try_result \<times> effect list" where
  "stripeStep e sessionId =
     (case getStripe e of
        GetStripePending \<Rightarrow> (Suspended, [GetStripeCall])
      | GetStripeRejected t \<Rightarrow> (Raised t, [GetStripeCall])
      | GetStripeResolved None \<Rightarrow> (Raised (newError stripeInitFailedMessage), [GetStripeCall])
      | GetStripeResolved (Some st) \<Rightarrow>
          (redirectStep st sessionId, [GetStripeCall, RedirectToCheckoutCall sessionId]))"

text \<open>
  Lines 123 to 134, a response that is not OK: the message is the truthy \<^verbatim>\<open>error\<close> of a
  truthy body, else the default; a body that does not parse leaves the default too.
\<close>

definition errorResponseStep :: "response \<Rightarrow> try_result" where
  "errorResponseStep r =
     (case json r of
        JsonPending \<Rightarrow> Suspended
      | JsonRejected t \<Rightarrow> Raised (newError sessionFailedMessage)
      | JsonResolved JsonFalsy \<Rightarrow> Raised (newError sessionFailedMessage)
      | JsonResolved (JsonValue err sid) \<Rightarrow> Raised (newError (orElse err sessionFailedMessage)))"

text \<open>Lines 136 to 159, a response that is OK.\<close>

definition okResponseStep :: "env \<Rightarrow> response \<Rightarrow> try_result \<times> effect list" where
  "okResponseStep e r =
     (case json r of
        JsonPending \<Rightarrow> (Suspended, [])
      | JsonRejected t \<Rightarrow> (Raised t, [])
      | JsonResolved JsonFalsy \<Rightarrow> (Raised (newError missingSessionIdMessage), [])
      | JsonResolved (JsonValue err sid) \<Rightarrow>
          if \<not> truthy sid then (Raised (newError missingSessionIdMessage), [])
          else stripeStep e sid)"

text \<open>Lines 88 to 159.\<close>

definition tryBlock :: "env \<Rightarrow> product \<Rightarrow> uiState \<Rightarrow> try_result \<times> effect list" where
  "tryBlock e p s =
     (let req = checkoutRequest e p s in
      case fetch e req of
        FetchPending \<Rightarrow> (Suspended, [FetchCall req])
      | FetchRejected t \<Rightarrow> (Raised t, [FetchCall req])
      | FetchResolved r \<Rightarrow>
          if \<not> ok r then (errorResponseStep r, [FetchCall req])
          else (case okResponseStep e r of (res, effs) \<Rightarrow> (res, FetchCall req # effs)))"

subsection \<open>handleCheckout\<close>

text \<open>
  Lines 72 to 165, for the route identifier, the resolved product and the state of the
  render whose button was clicked. The catch clause of lines 160 to 164 reads the
  \<^verbatim>\<open>message\<close> of what was thrown, which itself throws a TypeError on null and undefined.
  An exception outside the try block, or in the catch clause, rejects the promise that
  \<^verbatim>\<open>handleCheckout\<close> returns.
\<close>

definition handleCheckout :: "env \<Rightarrow> jsstring \<Rightarrow> product \<Rightarrow> uiState \<Rightarrow> outcome" where
  "handleCheckout e ident p s =
     (if user e = None then
        (case encodeURIComponent (ascii ''/products/'' @ ident) of
           Inl err \<Rightarrow> \<lparr>finalState = s, effects = [], completion = Rejected err\<rparr>
         | Inr target \<Rightarrow>
             \<lparr>finalState = s, effects = [RouterPush (ascii ''/login?redirect='' @ target)],
              completion = Returned\<rparr>)
      else if \<not> stripeAvailable s then
        \<lparr>finalState = s\<lparr>error := configurationMessage\<rparr>, effects = [], completion = Returned\<rparr>
      else
        (let s1 = s\<lparr>isLoading := True, error := []\<rparr> in
         case tryBlock e p s of
           (Completed, effs) \<Rightarrow> \<lparr>finalState = s1, effects = effs, completion = Returned\<rparr>
         | (Suspended, effs) \<Rightarrow> \<lparr>finalState = s1, effects = effs, completion = Pending\<rparr>
         | (Raised ThrownNullish, effs) \<Rightarrow>
             \<lparr>finalState = s1, effects = effs, completion = Rejected TypeError\<rparr>
         | (Raised (Thrown m), effs) \<Rightarrow>
             \<lparr>finalState = s1\<lparr>error := errorPrefix @ orElse m [], isLoading := False\<rparr>,
              effects = effs, completion = Returned\<rparr>))"

section \<open>The rendered page\<close>

text \<open>
  The view keeps what is shown and what can be clicked; class names, alternative texts of
  images and the static headings are left out. An amount in the view stands for its
  rendering by \<^verbatim>\<open>formatPrice\<close> (lines 64 to 69, the yen format of the platform).
\<close>

datatype action =
    RouterBack
  | SetActiveImageIndex nat
  | SetPurchaseType purchase_type
  | HandleCheckout

record button =
  label :: jsstring
  disabled :: bool
  onClick :: action

record thumbnail =
  thumbSrc :: jsstring
  thumbSelected :: bool
  thumbOnClick :: action

record choice =
  choiceLabel :: jsstring
  choiceSelected :: bool
  choiceOnClick :: action

text \<open>Line 240: "In stock (n left)", with the stock count, or "Out of stock".\<close>

datatype stock_text = InStock int | SoldOut

record detail =
  mainImageSrc :: "jsstring option"
  thumbnails :: "thumbnail list"
  heading :: jsstring
  priceShown :: int
  monthlyPriceShown :: "int option"
  descriptionShown :: jsstring
  featuresShown :: "jsstring list"
  categoryShown :: jsstring
  stockShown :: stock_text
  purchaseChoices :: "choice list"
  errorShown :: "jsstring option"
  checkoutButton :: button
  loginHint :: bool

datatype view = NotFoundView jsstring "button list" | DetailView detail

text \<open>
  Lines 167 to 298. \<open>mainImageSrc\<close> is \<^verbatim>\<open>product.images[activeImageIndex]\<close>, \<open>None\<close> for
  undefined; \<open>monthlyPriceShown\<close> is the amount of the second price, the one followed by
  "/month" (lines 212 to 216), \<open>None\<close> when it is not rendered.
\<close>

definition renderDetail :: "product \<Rightarrow> user option \<Rightarrow> uiState \<Rightarrow> detail" where
  "renderDetail p u s =
     \<lparr>mainImageSrc =
        (if activeImageIndex s < length (images p) then Some (images p ! activeImageIndex s)
         else None),
      thumbnails =
        (if length (images p) > 1
         then map (\<lambda>(index, image).
                \<lparr>thumbSrc = image, thumbSelected = (activeImageIndex s = index),
                 thumbOnClick = SetActiveImageIndex index\<rparr>)
              (enumerate 0 (images p))
         else []),
      heading = name p,
      priceShown = price p,
      monthlyPriceShown =
        (if isSubscription p \<and> purchaseType s = Subscription
         then Some (case subscriptionPrice p of Some sp \<Rightarrow> if sp \<noteq> 0 then sp else 0 | None \<Rightarrow> 0)
         else None),
      descriptionShown = description p,
      featuresShown =
        (case features p of Some fs \<Rightarrow> if length fs > 0 then fs else [] | None \<Rightarrow> []),
      categoryShown = category p,
      stockShown = (if stock p > 0 then InStock (stock p) else SoldOut),
      purchaseChoices =
        (if isSubscription p
         then [\<lparr>choiceLabel = oneTimeLabel, choiceSelected = (purchaseType s = OneTime),
                 choiceOnClick = SetPurchaseType OneTime\<rparr>,
               \<lparr>choiceLabel = subscriptionLabel, choiceSelected = (purchaseType s = Subscription),
                 choiceOnClick = SetPurchaseType Subscription\<rparr>]
         else []),
      errorShown = (if error s \<noteq> [] then Some (error s) else None),
      checkoutButton =
        \<lparr>label =
           (if isLoading s then processingLabel
            else if stock p \<le> 0 then outOfStockLabel else buyLabel),
         disabled = (isLoading s \<or> stock p \<le> 0),
         onClick = HandleCheckout\<rparr>,
      loginHint = (u = None)\<rparr>"

text \<open>Lines 52 to 57, the only control of the not-found view: it calls \<^verbatim>\<open>router.back()\<close>.\<close>

definition goBackButton :: button where
  "goBackButton = \<lparr>label = goBackLabel, disabled = False, onClick = RouterBack\<rparr>"

text \<open>Lines 45 to 61, then the detail view.\<close>

definition ProductDetail :: "product list \<Rightarrow> jsstring \<Rightarrow> user option \<Rightarrow> uiState \<Rightarrow> view" where
  "ProductDetail products ident u s =
     (case resolveProduct products ident of
        None \<Rightarrow> NotFoundView notFoundHeading [goBackButton]
      | Some p \<Rightarrow> DetailView (renderDetail p u s))"

section \<open>The page as a transition system\<close>

text \<open>The handlers of the controls that a view offers: a disabled button offers none.\<close>

fun clickable :: "view \<Rightarrow> action list" where
  "clickable (NotFoundView h bs) = map onClick (filter (\<lambda>b. \<not> disabled b) bs)"
| "clickable (DetailView d) =
     map thumbOnClick (thumbnails d) @ map choiceOnClick (purchaseChoices d)
     @ (if disabled (checkoutButton d) then [] else [onClick (checkoutButton d)])"

text \<open>
  The events of a mounted page: the effect of lines 23 to 42 with the result of its probe,
  and a click on a control, with what the handler then meets. A click on a control that
  the current view does not offer is no step. A run of \<^verbatim>\<open>handleCheckout\<close> is one step
  to its final state; the state shown while it awaits is the final state of the run whose
  promise stays pending, and the other handlers write other cells than it does.
\<close>

datatype event = Mounted probe | Clicked action env

fun step :: "product list \<Rightarrow> jsstring \<Rightarrow> uiState \<Rightarrow> event \<Rightarrow> uiState option" where
  "step products ident s (Mounted pr) = Some (checkStripe pr s)"
| "step products ident s (Clicked a e) =
     (if a \<in> set (clickable (ProductDetail products ident (user e) s)) then
        (case a of
           RouterBack \<Rightarrow> Some s
         | SetActiveImageIndex i \<Rightarrow> Some (s\<lparr>activeImageIndex := i\<rparr>)
         | SetPurchaseType t \<Rightarrow> Some (s\<lparr>purchaseType := t\<rparr>)
         | HandleCheckout \<Rightarrow>
             (case resolveProduct products ident of
                None \<Rightarrow> None
              | Some p \<Rightarrow> Some (finalState (handleCheckout e ident p s))))
      else None)"

fun run :: "product list \<Rightarrow> jsstring \<Rightarrow> uiState \<Rightarrow> event list \<Rightarrow> uiState option" where
  "run products ident s [] = Some s"
| "run products ident s (ev # evs) =
     (case step products ident s ev of
        None \<Rightarrow> None
      | Some s' \<Rightarrow> run products ident s' evs)"

section \<open>Notions used in the statements\<close>

text \<open>
  A run of \<^verbatim>\<open>handleCheckout\<close> failed with the message \<open>msg\<close>: the catch clause of
  lines 160 to 164 has shown the message behind the fixed prefix, has reset the loading
  flag, and the run has returned.
\<close>

definition failedWith :: "outcome \<Rightarrow> jsstring \<Rightarrow> bool" where
  "failedWith out msg \<longleftrightarrow>
     error (finalState out) = errorPrefix @ msg \<and> error (finalState out) \<noteq> []
     \<and> isLoading (finalState out) = False \<and> completion out = Returned"

definition isFetchCall :: "effect \<Rightarrow> bool" where
  "isFetchCall x = (case x of FetchCall req \<Rightarrow> True | _ \<Rightarrow> False)"

section \<open>Sample inputs\<close>

text \<open>
  A product with the identifier p1, a price of 1000, no subscription price and no stock,
  eligible for subscription, with two images; the same product without images; a catalog
  in which the identifier p1 occurs twice.
\<close>

definition sampleProduct :: product where
  "sampleProduct =
     \<lparr>idP = ascii ''p1'', name = ascii ''Tea'', description = ascii ''Green tea'',
      price = 1000, subscriptionPrice = None, stock = 0, category = ascii ''drinks'',
      images = [ascii ''/img/tea.jpg'', ascii ''https://cdn.example/tea-2.jpg''],
      features = None, isSubscription = True\<rparr>"

definition bareProduct :: product where
  "bareProduct = sampleProduct\<lparr>images := []\<rparr>"

definition catalog :: "product list" where
  "catalog = [sampleProduct\<lparr>idP := ascii ''p0'', stock := 3\<rparr>, sampleProduct,
              sampleProduct\<lparr>name := ascii ''Duplicate''\<rparr>]"

text \<open>
  The initial state after a probe that found the payment provider configured, and the
  initial state after the subscription mode was chosen.
\<close>

definition readyState :: uiState where
  "readyState = initialState\<lparr>stripeAvailable := True\<rparr>"

definition subscriptionState :: uiState where
  "subscriptionState = initialState\<lparr>purchaseType := Subscription\<rparr>"

text \<open>
  A signed-in visitor whose request hangs; one whose request is answered with the given
  status and body; one whose request is answered with the given session identifier, for
  a given result of the client factory; a client whose redirect has the given result.
\<close>

definition signedInEnv :: env where
  "signedInEnv =
     \<lparr>user = Some (User (ascii ''u1'')),
      NEXT_PUBLIC_SITE_URL = Some (ascii ''https://shop.example''),
      windowOrigin = None, fetch = (\<lambda>req. FetchPending), getStripe = GetStripeResolved None\<rparr>"

definition respond :: "bool \<Rightarrow> json \<Rightarrow> env" where
  "respond isOk body =
     signedInEnv\<lparr>fetch := (\<lambda>req. FetchResolved (Response isOk (JsonResolved body)))\<rparr>"

definition checkoutEnv :: "jsval \<Rightarrow> getStripe_result \<Rightarrow> env" where
  "checkoutEnv sid client =
     signedInEnv
       \<lparr>fetch := (\<lambda>req. FetchResolved (Response True (JsonResolved (JsonValue Falsy sid)))),
        getStripe := client\<rparr>"

definition redirecting :: "redirect_result \<Rightarrow> getStripe_result" where
  "redirecting r = GetStripeResolved (Some (Stripe (\<lambda>sid. r)))"

section \<open>Properties of encodeURIComponent\<close>

lemma lead_not_unreserved: "isLeadSurrogate c \<Longrightarrow> \<not> isUnreserved c"
  by (auto simp: isLeadSurrogate_def isUnreserved_def ascii_def word_le_nat_alt)

lemma lead_not_trail: "isLeadSurrogate c \<Longrightarrow> \<not> isTrailSurrogate c"
  by (auto simp: isLeadSurrogate_def isTrailSurrogate_def word_le_nat_alt)

lemma encodeURIComponent_wellFormed:
  "isWellFormed xs \<Longrightarrow> \<exists>r. encodeURIComponent xs = Inr r"
proof (induction xs rule: encodeURIComponent.induct)
  case 1
  then show ?case by simp
next
  case (2 c cs)
  show ?case
  proof (cases "isLeadSurrogate c")
    case True
    then have nu: "\<not> isUnreserved c" and nt: "\<not> isTrailSurrogate c"
      by (simp_all add: lead_not_unreserved lead_not_trail)
    from True "2.prems" obtain d ds where cs: "cs = d # ds" and d: "isTrailSurrogate d"
      and wf: "isWellFormed ds"
      by (auto split: list.splits)
    from "2.IH"(2) [OF nu nt True cs d wf] obtain r where "encodeURIComponent ds = Inr r"
      by blast
    then show ?thesis
      using nu nt True cs d by (simp add: prepend_def)
  next
    case False
    with "2.prems" have nt: "\<not> isTrailSurrogate c" and wf: "isWellFormed cs"
      by auto
    show ?thesis
    proof (cases "isUnreserved c")
      case True
      from "2.IH"(1) [OF True wf] show ?thesis
        using True by (auto simp: prepend_def)
    next
      case nu: False
      from "2.IH"(3) [OF nu nt False wf] show ?thesis
        using nu nt False by (auto simp: prepend_def)
    qed
  qed
qed

lemma encodeURIComponent_unreserved:
  "\<forall>c \<in> set xs. isUnreserved c \<Longrightarrow> encodeURIComponent xs = Inr xs"
  by (induction xs) (simp_all add: prepend_def)

text \<open>Each slash of the path becomes \<^verbatim>\<open>%2F\<close>; its letters are kept.\<close>

lemma encode_products_path:
  "encodeURIComponent (ascii ''/products/'' @ ident) =
     prepend (ascii ''%2Fproducts%2F'') (encodeURIComponent ident)"
  by (simp add: ascii_def isUnreserved_def isTrailSurrogate_def isLeadSurrogate_def
      prepend_def utf8_def percentEncode_def hexDigit_def split: sum.split)

text \<open>Two more readings: a kana, a space and an emoji given as a surrogate pair; a lone surrogate.\<close>

lemma encodeURIComponent_example:
  "encodeURIComponent [0x3042, 0x20, 0xD83D, 0xDE00] = Inr (ascii ''%E3%81%82%20%F0%9F%98%80'')"
  by (simp add: ascii_def isUnreserved_def isTrailSurrogate_def isLeadSurrogate_def
      prepend_def utf8_def percentEncode_def hexDigit_def pairCodePoint_def)

lemma encodeURIComponent_lone_surrogate:
  "encodeURIComponent [0x41, 0xDC00] = Inl URIError"
  by (simp add: ascii_def isUnreserved_def isTrailSurrogate_def isLeadSurrogate_def
      prepend_def)

section \<open>Properties of the checkout orchestrator\<close>

lemma handleCheckout_signed_out:
  assumes "user e = None"
  shows "handleCheckout e ident p s =
     (case encodeURIComponent ident of
        Inl err \<Rightarrow> \<lparr>finalState = s, effects = [], completion = Rejected err\<rparr>
      | Inr t \<Rightarrow>
          \<lparr>finalState = s,
           effects = [RouterPush (ascii ''/login?redirect='' @ ascii ''%2Fproducts%2F'' @ t)],
           completion = Returned\<rparr>)"
  using assms
  by (simp add: handleCheckout_def encode_products_path prepend_def split: sum.split)

lemma handleCheckout_started:
  assumes "user e = Some u" and "stripeAvailable s"
  shows "handleCheckout e ident p s =
     (let s1 = s\<lparr>isLoading := True, error := []\<rparr> in
         case tryBlock e p s of
           (Completed, effs) \<Rightarrow> \<lparr>finalState = s1, effects = effs, completion = Returned\<rparr>
         | (Suspended, effs) \<Rightarrow> \<lparr>finalState = s1, effects = effs, completion = Pending\<rparr>
         | (Raised ThrownNullish, effs) \<Rightarrow>
             \<lparr>finalState = s1, effects = effs, completion = Rejected TypeError\<rparr>
         | (Raised (Thrown m), effs) \<Rightarrow>
             \<lparr>finalState = s1\<lparr>error := errorPrefix @ orElse m [], isLoading := False\<rparr>,
              effects = effs, completion = Returned\<rparr>)"
  using assms by (simp add: handleCheckout_def)

lemma handleCheckout_effects:
  assumes "user e = Some u" and "stripeAvailable s"
  shows "effects (handleCheckout e ident p s) = snd (tryBlock e p s)"
  using assms
  by (simp add: handleCheckout_started Let_def split: prod.split try_result.split thrown.split)

lemma tryBlock_fetches:
  "\<exists>rest. snd (tryBlock e p s) = FetchCall (checkoutRequest e p s) # rest"
  by (simp add: tryBlock_def Let_def split: fetch_result.split prod.split)

lemma errorPrefix_nonempty: "errorPrefix @ m \<noteq> []"
  by (simp add: errorPrefix_def)

lemma handleCheckout_raised:
  assumes "user e = Some u" and "stripeAvailable s"
    and "tryBlock e p s = (Raised (newError m), effs)"
  shows "failedWith (handleCheckout e ident p s) m"
  using assms errorPrefix_nonempty [of m]
  by (simp add: handleCheckout_started failedWith_def newError_def)

lemma handleCheckout_keeps:
  "activeImageIndex (finalState (handleCheckout e ident p s)) = activeImageIndex s"
  "purchaseType (finalState (handleCheckout e ident p s)) = purchaseType s"
  "stripeAvailable (finalState (handleCheckout e ident p s)) = stripeAvailable s"
  by (simp_all add: handleCheckout_def Let_def
      split: sum.split prod.split try_result.split thrown.split)

subsection \<open>The two preconditions\<close>

text \<open>
  C4. With no user signed in, handleCheckout never calls the remote endpoint and leaves
  every cell of the state as it was (no error is shown). For a well-formed route
  identifier it returns after one navigation, to \<^verbatim>\<open>/login?redirect=\<close> followed by the
  current page \<^verbatim>\<open>/products/<id>\<close> as encodeURIComponent writes it: each slash as
  \<^verbatim>\<open>%2F\<close>, then the encoded identifier, which is the identifier itself when it consists
  of letters, digits and unreserved marks. A route identifier is a decoded segment of
  the URL, hence well-formed.
\<close>

theorem signed_out_checkout_navigates_to_login:
  assumes "user e = None"
  shows "filter isFetchCall (effects (handleCheckout e ident p s)) = []
       \<and> finalState (handleCheckout e ident p s) = s
       \<and> (isWellFormed ident \<longrightarrow>
            (\<exists>t. encodeURIComponent ident = Inr t
               \<and> effects (handleCheckout e ident p s) =
                   [RouterPush (ascii ''/login?redirect='' @ ascii ''%2Fproducts%2F'' @ t)]
               \<and> completion (handleCheckout e ident p s) = Returned))
       \<and> ((\<forall>c \<in> set ident. isUnreserved c) \<longrightarrow>
             effects (handleCheckout e ident p s) =
               [RouterPush (ascii ''/login?redirect='' @ ascii ''%2Fproducts%2F'' @ ident)])"
proof (intro conjI impI)
  show "filter isFetchCall (effects (handleCheckout e ident p s)) = []"
    by (simp add: handleCheckout_signed_out [OF assms] isFetchCall_def split: sum.split)
  show "finalState (handleCheckout e ident p s) = s"
    by (simp add: handleCheckout_signed_out [OF assms] split: sum.split)
next
  assume "isWellFormed ident"
  then obtain t where t: "encodeURIComponent ident = Inr t"
    using encodeURIComponent_wellFormed by blast
  then have "effects (handleCheckout e ident p s) =
                   [RouterPush (ascii ''/login?redirect='' @ ascii ''%2Fproducts%2F'' @ t)]
       \<and> completion (handleCheckout e ident p s) = Returned"
    by (simp add: handleCheckout_signed_out [OF assms])
  with t show "\<exists>t. encodeURIComponent ident = Inr t
               \<and> effects (handleCheckout e ident p s) =
                   [RouterPush (ascii ''/login?redirect='' @ ascii ''%2Fproducts%2F'' @ t)]
               \<and> completion (handleCheckout e ident p s) = Returned"
    by blast
next
  assume "\<forall>c \<in> set ident. isUnreserved c"
  then have "encodeURIComponent ident = Inr ident"
    by (rule encodeURIComponent_unreserved)
  then show "effects (handleCheckout e ident p s) =
               [RouterPush (ascii ''/login?redirect='' @ ascii ''%2Fproducts%2F'' @ ident)]"
    by (simp add: handleCheckout_signed_out [OF assms])
qed

theorem signed_out_checkout_navigates_to_login_witness:
  "user (signedInEnv\<lparr>user := None\<rparr>) = None
   \<and> isWellFormed (ascii ''p1'')
   \<and> list_all isUnreserved (ascii ''p1'')
   \<and> effects (handleCheckout (signedInEnv\<lparr>user := None\<rparr>) (ascii ''p1'') sampleProduct readyState) =
       [RouterPush (ascii ''/login?redirect=%2Fproducts%2Fp1'')]
   \<and> completion (handleCheckout (signedInEnv\<lparr>user := None\<rparr>) (ascii ''p1'') sampleProduct readyState)
       = Returned
   \<and> filter isFetchCall
        (effects (handleCheckout (signedInEnv\<lparr>user := None\<rparr>) (ascii ''p1'') sampleProduct readyState))
       = []"
proof -
  let ?e = "signedInEnv\<lparr>user := None\<rparr>"
  let ?out = "handleCheckout ?e (ascii ''p1'') sampleProduct readyState"
  note fact = signed_out_checkout_navigates_to_login [of ?e "ascii ''p1''" sampleProduct readyState]
  have u: "user ?e = None"
    by simp
  have w: "\<forall>c \<in> set (ascii ''p1''). isUnreserved c"
    by (simp add: ascii_def isUnreserved_def)
  have wf: "isWellFormed (ascii ''p1'')"
    by (simp add: ascii_def isLeadSurrogate_def isTrailSurrogate_def)
  have t: "ascii ''/login?redirect='' @ ascii ''%2Fproducts%2F'' @ ascii ''p1''
             = ascii ''/login?redirect=%2Fproducts%2Fp1''"
    by (simp add: ascii_def)
  have "effects ?out =
       [RouterPush (ascii ''/login?redirect='' @ ascii ''%2Fproducts%2F'' @ ascii ''p1'')]"
    using fact [OF u] w by blast
  moreover have "completion ?out = Returned"
    using fact [OF u] wf by blast
  moreover have "filter isFetchCall (effects ?out) = []"
    using fact [OF u] by blast
  moreover have "list_all isUnreserved (ascii ''p1'')"
    using w by (simp only: list_all_iff)
  ultimately show ?thesis
    using u wf by (simp only: t simp_thms)
qed

text \<open>
  C5. With a user signed in and the payment-availability flag false, handleCheckout sets
  the error to the configuration message and returns: it calls no collaborator (no
  network request), and the loading flag and every other cell stay as they were.
\<close>

theorem payment_unavailable_sets_configuration_error:
  assumes "user e = Some u" and "\<not> stripeAvailable s"
  shows "handleCheckout e ident p s =
           \<lparr>finalState = s\<lparr>error := configurationMessage\<rparr>, effects = [], completion = Returned\<rparr>
         \<and> isLoading (finalState (handleCheckout e ident p s)) = isLoading s"
  using assms by (simp add: handleCheckout_def)

theorem payment_unavailable_sets_configuration_error_witness:
  "user signedInEnv = Some (User (ascii ''u1'')) \<and> \<not> stripeAvailable initialState
   \<and> handleCheckout signedInEnv (ascii ''p1'') sampleProduct initialState =
       \<lparr>finalState = initialState\<lparr>error := configurationMessage\<rparr>, effects = [],
        completion = Returned\<rparr>"
  using payment_unavailable_sets_configuration_error
          [of signedInEnv "User (ascii ''u1'')" initialState "ascii ''p1''" sampleProduct]
  by (simp add: signedInEnv_def initialState_def)

text \<open>
  C10. handleCheckout itself checks neither the stock nor the loading flag: with a user
  signed in and payment available it issues the request to the remote endpoint first,
  whatever the stock of the product and the loading flag are. These two guards are the
  \<^verbatim>\<open>disabled\<close> attribute of the button of line 280 and nothing else.
\<close>

theorem handleCheckout_checks_neither_stock_nor_loading:
  assumes "user e = Some u" and "stripeAvailable s"
  shows "(\<exists>rest. effects (handleCheckout e ident p s) = FetchCall (checkoutRequest e p s) # rest)
         \<and> disabled (checkoutButton (renderDetail p (user e) s)) = (isLoading s \<or> stock p \<le> 0)"
proof -
  obtain rest where "snd (tryBlock e p s) = FetchCall (checkoutRequest e p s) # rest"
    using tryBlock_fetches by blast
  then have "effects (handleCheckout e ident p s) = FetchCall (checkoutRequest e p s) # rest"
    using handleCheckout_effects [OF assms] by simp
  then show ?thesis
    by (simp add: renderDetail_def)
qed

theorem handleCheckout_checks_neither_stock_nor_loading_witness:
  "user signedInEnv = Some (User (ascii ''u1'')) \<and> stripeAvailable (readyState\<lparr>isLoading := True\<rparr>)
   \<and> stock sampleProduct = 0 \<and> isLoading (readyState\<lparr>isLoading := True\<rparr>)
   \<and> disabled (checkoutButton
        (renderDetail sampleProduct (user signedInEnv) (readyState\<lparr>isLoading := True\<rparr>)))
   \<and> (\<exists>rest. effects (handleCheckout signedInEnv (ascii ''p1'') sampleProduct
                        (readyState\<lparr>isLoading := True\<rparr>))
        = FetchCall (checkoutRequest signedInEnv sampleProduct (readyState\<lparr>isLoading := True\<rparr>))
          # rest)"
  using handleCheckout_checks_neither_stock_nor_loading
          [of signedInEnv "User (ascii ''u1'')" "readyState\<lparr>isLoading := True\<rparr>" "ascii ''p1''"
              sampleProduct]
  by (simp add: signedInEnv_def readyState_def sampleProduct_def)

subsection \<open>The chain after the preconditions\<close>

text \<open>
  C2, as the specification states it: a response that is not OK with the body
  \<^verbatim>\<open>{ error: "out of stock" }\<close> makes the inline error text equal to "out of stock".
  It does not: the catch clause of line 162 puts a fixed prefix before the message, so
  the text shown is the prefix followed by "out of stock".
\<close>

theorem checkout_error_text_is_not_the_body_error:
  "error (finalState (handleCheckout (respond False (JsonValue (Str (ascii ''out of stock'')) Falsy))
       (ascii ''p1'') sampleProduct readyState))
     = errorPrefix @ ascii ''out of stock''
   \<and> error (finalState (handleCheckout (respond False (JsonValue (Str (ascii ''out of stock'')) Falsy))
       (ascii ''p1'') sampleProduct readyState))
     \<noteq> ascii ''out of stock''"
  by (simp add: handleCheckout_def respond_def signedInEnv_def readyState_def initialState_def
      tryBlock_def errorResponseStep_def newError_def errorPrefix_def ascii_def)

text \<open>
  C2, amended: when the response of the remote endpoint is not OK and its JSON body has a
  non-empty string as its \<^verbatim>\<open>error\<close>, the inline error text is the fixed prefix of line
  162 followed by exactly that string, and the loading flag is reset to false.
\<close>

theorem checkout_error_text_is_prefixed_body_error:
  assumes "user e = Some u" and "stripeAvailable s"
    and "fetch e (checkoutRequest e p s) =
           FetchResolved (Response False (JsonResolved (JsonValue (Str msg) sid)))"
    and "msg \<noteq> []"
  shows "error (finalState (handleCheckout e ident p s)) = errorPrefix @ msg
         \<and> isLoading (finalState (handleCheckout e ident p s)) = False"
  using assms
  by (simp add: handleCheckout_started tryBlock_def errorResponseStep_def newError_def)

theorem checkout_error_text_is_prefixed_body_error_witness:
  "user (respond False (JsonValue (Str (ascii ''out of stock'')) Falsy)) = Some (User (ascii ''u1''))
   \<and> stripeAvailable readyState \<and> ascii ''out of stock'' \<noteq> []
   \<and> error (finalState (handleCheckout (respond False (JsonValue (Str (ascii ''out of stock'')) Falsy))
        (ascii ''p1'') sampleProduct readyState))
       = errorPrefix @ ascii ''out of stock''
   \<and> isLoading (finalState (handleCheckout (respond False (JsonValue (Str (ascii ''out of stock'')) Falsy))
        (ascii ''p1'') sampleProduct readyState))
       = False"
proof -
  let ?e = "respond False (JsonValue (Str (ascii ''out of stock'')) Falsy)"
  have u: "user ?e = Some (User (ascii ''u1''))"
    by (simp add: respond_def signedInEnv_def)
  have a: "stripeAvailable readyState"
    by (simp add: readyState_def)
  have f: "fetch ?e (checkoutRequest ?e sampleProduct readyState) =
      FetchResolved (Response False (JsonResolved (JsonValue (Str (ascii ''out of stock'')) Falsy)))"
    by (simp add: respond_def)
  have m: "ascii ''out of stock'' \<noteq> []"
    by (simp add: ascii_def)
  show ?thesis
    using checkout_error_text_is_prefixed_body_error [OF u a f m, of "ascii ''p1''"] u a m
    by simp
qed

text \<open>
  C7, as the specification states it: an OK response with a session identifier makes the
  run invoke the client factory and the redirect once each. It does not when the client
  factory yields no client (lines 146 to 148): the factory is invoked, the redirect is
  not, and the catch clause resets the loading flag.
\<close>

theorem checkout_session_without_client_never_redirects:
  "user (checkoutEnv (Str (ascii ''cs_123'')) (GetStripeResolved None)) = Some (User (ascii ''u1''))
   \<and> stripeAvailable readyState
   \<and> fetch (checkoutEnv (Str (ascii ''cs_123'')) (GetStripeResolved None))
        (checkoutRequest (checkoutEnv (Str (ascii ''cs_123'')) (GetStripeResolved None))
           sampleProduct readyState)
       = FetchResolved (Response True (JsonResolved (JsonValue Falsy (Str (ascii ''cs_123'')))))
   \<and> truthy (Str (ascii ''cs_123''))
   \<and> effects (handleCheckout (checkoutEnv (Str (ascii ''cs_123'')) (GetStripeResolved None))
        (ascii ''p1'') sampleProduct readyState)
       = [FetchCall (checkoutRequest (checkoutEnv (Str (ascii ''cs_123'')) (GetStripeResolved None))
            sampleProduct readyState),
          GetStripeCall]
   \<and> RedirectToCheckoutCall (Str (ascii ''cs_123''))
        \<notin> set (effects (handleCheckout (checkoutEnv (Str (ascii ''cs_123'')) (GetStripeResolved None))
             (ascii ''p1'') sampleProduct readyState))
   \<and> isLoading (finalState (handleCheckout
        (checkoutEnv (Str (ascii ''cs_123'')) (GetStripeResolved None))
        (ascii ''p1'') sampleProduct readyState)) = False"
proof -
  let ?e = "checkoutEnv (Str (ascii ''cs_123'')) (GetStripeResolved None)"
  have u: "user ?e = Some (User (ascii ''u1''))"
    by (simp add: checkoutEnv_def signedInEnv_def)
  have a: "stripeAvailable readyState"
    by (simp add: readyState_def)
  have f: "fetch ?e (checkoutRequest ?e sampleProduct readyState) =
      FetchResolved (Response True (JsonResolved (JsonValue Falsy (Str (ascii ''cs_123'')))))"
    by (simp add: checkoutEnv_def)
  have t: "truthy (Str (ascii ''cs_123''))"
    by (simp add: ascii_def)
  have g: "getStripe ?e = GetStripeResolved None"
    by (simp add: checkoutEnv_def)
  have b: "tryBlock ?e sampleProduct readyState =
      (Raised (newError stripeInitFailedMessage),
       [FetchCall (checkoutRequest ?e sampleProduct readyState), GetStripeCall])"
    using f t g by (simp add: tryBlock_def okResponseStep_def stripeStep_def)
  have eff: "effects (handleCheckout ?e (ascii ''p1'') sampleProduct readyState) =
      [FetchCall (checkoutRequest ?e sampleProduct readyState), GetStripeCall]"
    using handleCheckout_effects [OF u a] b by simp
  have l: "isLoading (finalState (handleCheckout ?e (ascii ''p1'') sampleProduct readyState)) = False"
    using handleCheckout_raised [OF u a b] by (simp add: failedWith_def)
  show ?thesis
    using u a f t eff l by simp
qed

text \<open>
  C7, amended: when the response is OK and carries a session identifier, and the client
  factory yields a client, the run calls the remote endpoint, then the client factory
  once, then the redirect once, with exactly that session identifier, and nothing else;
  when the redirect resolves without an error (or never settles, the page having
  navigated away) the loading flag is still true.
\<close>

theorem checkout_success_redirects_once_and_keeps_loading:
  assumes "user e = Some u" and "stripeAvailable s"
    and "fetch e (checkoutRequest e p s) =
           FetchResolved (Response True (JsonResolved (JsonValue err sid)))"
    and "truthy sid"
    and "getStripe e = GetStripeResolved (Some st)"
  shows "effects (handleCheckout e ident p s) =
           [FetchCall (checkoutRequest e p s), GetStripeCall, RedirectToCheckoutCall sid]
         \<and> (redirectToCheckout st sid = RedirectResolved None
              \<or> redirectToCheckout st sid = RedirectPending
              \<longrightarrow> isLoading (finalState (handleCheckout e ident p s)) = True)"
proof -
  have t: "tryBlock e p s = (redirectStep st sid,
       [FetchCall (checkoutRequest e p s), GetStripeCall, RedirectToCheckoutCall sid])"
    using assms(3-5) by (simp add: tryBlock_def okResponseStep_def stripeStep_def)
  have "effects (handleCheckout e ident p s) =
           [FetchCall (checkoutRequest e p s), GetStripeCall, RedirectToCheckoutCall sid]"
    using handleCheckout_effects [OF assms(1,2)] t by simp
  moreover have "isLoading (finalState (handleCheckout e ident p s)) = True"
    if "redirectToCheckout st sid = RedirectResolved None
        \<or> redirectToCheckout st sid = RedirectPending"
    using that assms(1,2) t by (auto simp: handleCheckout_started redirectStep_def Let_def)
  ultimately show ?thesis by blast
qed

theorem checkout_success_redirects_once_and_keeps_loading_witness:
  "truthy (Str (ascii ''cs_123''))
   \<and> effects (handleCheckout (checkoutEnv (Str (ascii ''cs_123'')) (redirecting (RedirectResolved None)))
        (ascii ''p1'') sampleProduct readyState) =
     [FetchCall (checkoutRequest (checkoutEnv (Str (ascii ''cs_123'')) (redirecting (RedirectResolved None)))
        sampleProduct readyState),
      GetStripeCall, RedirectToCheckoutCall (Str (ascii ''cs_123''))]
   \<and> isLoading (finalState (handleCheckout
        (checkoutEnv (Str (ascii ''cs_123'')) (redirecting (RedirectResolved None)))
        (ascii ''p1'') sampleProduct readyState))"
proof -
  let ?e = "checkoutEnv (Str (ascii ''cs_123'')) (redirecting (RedirectResolved None))"
  have u: "user ?e = Some (User (ascii ''u1''))"
    by (simp add: checkoutEnv_def signedInEnv_def)
  have a: "stripeAvailable readyState"
    by (simp add: readyState_def)
  have f: "fetch ?e (checkoutRequest ?e sampleProduct readyState) =
      FetchResolved (Response True (JsonResolved (JsonValue Falsy (Str (ascii ''cs_123'')))))"
    by (simp add: checkoutEnv_def)
  have t: "truthy (Str (ascii ''cs_123''))"
    by (simp add: ascii_def)
  have g: "getStripe ?e = GetStripeResolved (Some (Stripe (\<lambda>sid. RedirectResolved None)))"
    by (simp add: checkoutEnv_def redirecting_def)
  show ?thesis
    using checkout_success_redirects_once_and_keeps_loading [OF u a f t g, of "ascii ''p1''"] t
    by simp
qed



section \<open>Properties of the page\<close>

text \<open>
  C6. For an identifier that some record of the catalog carries, the resolver returns
  such a record and the detail view of that record renders; for any other identifier it
  returns none and the not-found view renders, whose only control is the button that
  goes back. Rendering is a total function: nothing is thrown. The lookup is a linear
  search by equality of identifiers: its result is the first record with the
  identifier.
\<close>

theorem resolver_returns_first_match_or_not_found:
  "(ident \<in> idP ` set products \<longrightarrow>
      (\<exists>p. resolveProduct products ident = Some p \<and> p \<in> set products \<and> idP p = ident
           \<and> ProductDetail products ident u s = DetailView (renderDetail p u s)))
   \<and> (ident \<notin> idP ` set products \<longrightarrow>
        resolveProduct products ident = None
        \<and> ProductDetail products ident u s = NotFoundView notFoundHeading [goBackButton]
        \<and> clickable (ProductDetail products ident u s) = [RouterBack])
   \<and> (\<forall>p. resolveProduct products ident = Some p \<longleftrightarrow>
         (\<exists>i<length products. products ! i = p \<and> idP p = ident
            \<and> (\<forall>j<i. idP (products ! j) \<noteq> ident)))"
proof (intro conjI impI allI)
  assume "ident \<in> idP ` set products"
  then have "resolveProduct products ident \<noteq> None"
    by (auto simp: resolveProduct_def find_None_iff)
  then obtain p where p: "resolveProduct products ident = Some p"
    by blast
  then have "p \<in> set products \<and> idP p = ident"
    by (auto simp: resolveProduct_def find_Some_iff)
  with p show "\<exists>p. resolveProduct products ident = Some p \<and> p \<in> set products \<and> idP p = ident
           \<and> ProductDetail products ident u s = DetailView (renderDetail p u s)"
    by (simp add: ProductDetail_def)
next
  assume "ident \<notin> idP ` set products"
  then show n: "resolveProduct products ident = None"
    by (auto simp: resolveProduct_def find_None_iff)
  then show v: "ProductDetail products ident u s = NotFoundView notFoundHeading [goBackButton]"
    by (simp add: ProductDetail_def)
  show "clickable (ProductDetail products ident u s) = [RouterBack]"
    by (simp add: v goBackButton_def)
next
  fix p
  show "resolveProduct products ident = Some p \<longleftrightarrow>
         (\<exists>i<length products. products ! i = p \<and> idP p = ident
            \<and> (\<forall>j<i. idP (products ! j) \<noteq> ident))"
    by (auto simp: resolveProduct_def find_Some_iff)
qed

theorem resolver_returns_first_match_or_not_found_witness:
  "ascii ''p1'' \<in> idP ` set catalog
   \<and> resolveProduct catalog (ascii ''p1'') = Some sampleProduct
   \<and> ascii ''zz'' \<notin> idP ` set catalog
   \<and> ProductDetail catalog (ascii ''zz'') None initialState
       = NotFoundView notFoundHeading [goBackButton]"
proof -
  note fact = resolver_returns_first_match_or_not_found
  have a: "ascii ''p1'' \<in> idP ` set catalog"
    by (simp add: catalog_def sampleProduct_def)
  have b: "ascii ''zz'' \<notin> idP ` set catalog"
    by (simp add: catalog_def sampleProduct_def ascii_def)
  have c: "1 < length catalog \<and> catalog ! 1 = sampleProduct \<and> idP sampleProduct = ascii ''p1''
       \<and> (\<forall>j<1. idP (catalog ! j) \<noteq> ascii ''p1'')"
    by (simp add: catalog_def sampleProduct_def ascii_def)
  have "resolveProduct catalog (ascii ''p1'') = Some sampleProduct"
    using fact [of "ascii ''p1''" catalog None initialState] c by blast
  moreover have "ProductDetail catalog (ascii ''zz'') None initialState
      = NotFoundView notFoundHeading [goBackButton]"
    using fact [of "ascii ''zz''" catalog None initialState] b by blast
  ultimately show ?thesis
    using a b by blast
qed

subsection \<open>What the views offer, and what the steps keep\<close>

lemma checkStripe_keeps:
  "activeImageIndex (checkStripe pr s) = activeImageIndex s"
  "isLoading (checkStripe pr s) = isLoading s"
  by (cases pr; simp)+

lemma thumbnail_actions:
  "map thumbOnClick (thumbnails (renderDetail p u s)) =
     (if 1 < length (images p) then map SetActiveImageIndex [0..<length (images p)] else [])"
proof -
  have "map (thumbOnClick \<circ> (\<lambda>(index, image).
            \<lparr>thumbSrc = image, thumbSelected = (activeImageIndex s = index),
             thumbOnClick = SetActiveImageIndex index\<rparr>)) (enumerate 0 xs)
        = map SetActiveImageIndex (map fst (enumerate 0 xs))" for xs :: "jsstring list"
    by (simp add: comp_def case_prod_unfold del: map_fst_enumerate)
  then show ?thesis
    by (simp add: renderDetail_def)
qed

lemma clickable_detail:
  assumes "resolveProduct products ident = Some p"
  shows "a \<in> set (clickable (ProductDetail products ident u s)) \<longleftrightarrow>
     (case a of
        RouterBack \<Rightarrow> False
      | SetActiveImageIndex i \<Rightarrow> 1 < length (images p) \<and> i < length (images p)
      | SetPurchaseType t \<Rightarrow> isSubscription p
      | HandleCheckout \<Rightarrow> \<not> isLoading s \<and> 0 < stock p)"
proof -
  have "clickable (ProductDetail products ident u s) =
      (if 1 < length (images p) then map SetActiveImageIndex [0..<length (images p)] else [])
      @ (if isSubscription p then [SetPurchaseType OneTime, SetPurchaseType Subscription] else [])
      @ (if isLoading s \<or> stock p \<le> 0 then [] else [HandleCheckout])"
    using assms thumbnail_actions [of p u s]
    by (simp add: ProductDetail_def) (simp add: renderDetail_def)
  then show ?thesis
    by (cases a) (auto intro: purchase_type.exhaust)
qed

lemma step_invariants:
  assumes "step products ident s ev = Some s'" and "resolveProduct products ident = Some p"
  shows "activeImageIndex s < length (images p) \<Longrightarrow> activeImageIndex s' < length (images p)"
    and "(stock p \<le> 0 \<longrightarrow> \<not> isLoading s) \<Longrightarrow> (stock p \<le> 0 \<longrightarrow> \<not> isLoading s')"
proof -
  show "activeImageIndex s' < length (images p)" if "activeImageIndex s < length (images p)"
  proof (cases ev)
    case (Mounted pr)
    with assms(1) that show ?thesis
      by (auto simp: checkStripe_keeps)
  next
    case (Clicked a e)
    with assms that show ?thesis
      by (cases a) (auto simp: clickable_detail handleCheckout_keeps split: if_splits)
  qed
  show "stock p \<le> 0 \<longrightarrow> \<not> isLoading s'" if "stock p \<le> 0 \<longrightarrow> \<not> isLoading s"
  proof (cases ev)
    case (Mounted pr)
    with assms(1) that show ?thesis
      by (auto simp: checkStripe_keeps)
  next
    case (Clicked a e)
    with assms that show ?thesis
      by (cases a) (auto simp: clickable_detail split: if_splits)
  qed
qed

lemma run_invariants:
  assumes "run products ident s evs = Some s'" and "resolveProduct products ident = Some p"
  shows "activeImageIndex s < length (images p) \<Longrightarrow> activeImageIndex s' < length (images p)"
    and "(stock p \<le> 0 \<longrightarrow> \<not> isLoading s) \<Longrightarrow> (stock p \<le> 0 \<longrightarrow> \<not> isLoading s')"
  using assms(1)
proof (induction evs arbitrary: s)
  case Nil
  { case 1 then show ?case by simp }
  { case 2 then show ?case by simp }
next
  case (Cons ev evs)
  { case 1
    then obtain t where t: "step products ident s ev = Some t" "run products ident t evs = Some s'"
      by (auto split: option.splits)
    from step_invariants(1) [OF t(1) assms(2) 1(1)] Cons.IH(1) [OF _ t(2)] show ?case by blast }
  { case 2
    then obtain t where t: "step products ident s ev = Some t" "run products ident t evs = Some s'"
      by (auto split: option.splits)
    from step_invariants(2) [OF t(1) assms(2) 2(1)] Cons.IH(2) [OF _ t(2)] show ?case by blast }
qed

subsection \<open>The active image index\<close>

text \<open>
  C8, as the specification states it: in every reachable state the active image index is
  a valid index of the images of the resolved product. It is not for a product without
  images: the index starts at 0, which is no index of an empty sequence, and the main
  image then has no source.
\<close>

theorem active_image_index_invalid_without_images:
  "resolveProduct [bareProduct] (ascii ''p1'') = Some bareProduct
   \<and> run [bareProduct] (ascii ''p1'') initialState [] = Some initialState
   \<and> \<not> activeImageIndex initialState < length (images bareProduct)
   \<and> mainImageSrc (renderDetail bareProduct None initialState) = None"
  by (simp add: resolveProduct_def bareProduct_def sampleProduct_def initialState_def
      renderDetail_def)

text \<open>
  C8, amended: for a resolved product with at least one image, in every reachable state
  the active image index is a valid index of its images, and the main image is the image
  at that index. The index starts at 0, and a click on thumbnail \<open>i\<close> sets it to \<open>i\<close>;
  thumbnails exist for the valid indices only, and only when there are two images or
  more.
\<close>

theorem active_image_index_valid:
  assumes "run products ident initialState evs = Some s"
    and "resolveProduct products ident = Some p"
    and "images p \<noteq> []"
  shows "activeImageIndex s < length (images p)
       \<and> mainImageSrc (renderDetail p u s) = Some (images p ! activeImageIndex s)
       \<and> activeImageIndex initialState = 0
       \<and> (\<forall>i e. step products ident s (Clicked (SetActiveImageIndex i) e) =
            (if 1 < length (images p) \<and> i < length (images p)
             then Some (s\<lparr>activeImageIndex := i\<rparr>) else None))"
proof -
  have "activeImageIndex initialState < length (images p)"
    using assms(3) by (simp add: initialState_def)
  then have r: "activeImageIndex s < length (images p)"
    by (rule run_invariants(1) [OF assms(1,2)])
  then have "mainImageSrc (renderDetail p u s) = Some (images p ! activeImageIndex s)"
    by (simp add: renderDetail_def)
  moreover have "step products ident s (Clicked (SetActiveImageIndex i) e) =
            (if 1 < length (images p) \<and> i < length (images p)
             then Some (s\<lparr>activeImageIndex := i\<rparr>) else None)" for i e
    by (simp add: clickable_detail [OF assms(2)])
  moreover have "activeImageIndex initialState = 0"
    by (simp add: initialState_def)
  ultimately show ?thesis
    using r by blast
qed

theorem active_image_index_valid_witness:
  "run [sampleProduct] (ascii ''p1'') initialState
      [Mounted (ProbeReturns True), Clicked (SetActiveImageIndex 1) signedInEnv]
     = Some (readyState\<lparr>activeImageIndex := 1\<rparr>)
   \<and> resolveProduct [sampleProduct] (ascii ''p1'') = Some sampleProduct
   \<and> images sampleProduct \<noteq> []
   \<and> activeImageIndex (readyState\<lparr>activeImageIndex := 1\<rparr>) < length (images sampleProduct)
   \<and> mainImageSrc (renderDetail sampleProduct None (readyState\<lparr>activeImageIndex := 1\<rparr>))
       = Some (ascii ''https://cdn.example/tea-2.jpg'')"
proof -
  have p: "resolveProduct [sampleProduct] (ascii ''p1'') = Some sampleProduct"
    by (simp add: resolveProduct_def sampleProduct_def)
  have i: "images sampleProduct \<noteq> []"
    "images sampleProduct ! 1 = ascii ''https://cdn.example/tea-2.jpg''"
    "length (images sampleProduct) = 2"
    by (simp_all add: sampleProduct_def)
  have r: "run [sampleProduct] (ascii ''p1'') initialState
      [Mounted (ProbeReturns True), Clicked (SetActiveImageIndex 1) signedInEnv]
     = Some (readyState\<lparr>activeImageIndex := 1\<rparr>)"
    by (simp add: clickable_detail [OF p] i readyState_def)
  show ?thesis
    using active_image_index_valid [OF r p i(1), of None] p i r by simp
qed

subsection \<open>The checkout control\<close>

text \<open>
  C9. In every reachable state the view offers the checkout action only when the stock
  is positive and the loading flag is false: its button is disabled exactly when the
  page is loading or the stock is not positive. For a product without stock the button
  is disabled and labelled "Out of stock", whoever the user is and whatever the probe of
  the payment provider found; the loading flag cannot be true there, since only the
  checkout action sets it.
\<close>

theorem checkout_control_guarded_by_stock_and_loading:
  assumes "run products ident initialState evs = Some s"
    and "resolveProduct products ident = Some p"
  shows "(HandleCheckout \<in> set (clickable (ProductDetail products ident u s))
            \<longrightarrow> 0 < stock p \<and> \<not> isLoading s)
       \<and> disabled (checkoutButton (renderDetail p u s)) = (isLoading s \<or> stock p \<le> 0)
       \<and> (stock p \<le> 0 \<longrightarrow>
            disabled (checkoutButton (renderDetail p u s))
            \<and> label (checkoutButton (renderDetail p u s)) = outOfStockLabel
            \<and> HandleCheckout \<notin> set (clickable (ProductDetail products ident u s)))"
proof -
  have "stock p \<le> 0 \<longrightarrow> \<not> isLoading initialState"
    by (simp add: initialState_def)
  then have "stock p \<le> 0 \<longrightarrow> \<not> isLoading s"
    by (rule run_invariants(2) [OF assms])
  then show ?thesis
    by (auto simp: clickable_detail [OF assms(2)] renderDetail_def)
qed

theorem checkout_control_guarded_by_stock_and_loading_witness:
  "run [sampleProduct] (ascii ''p1'') initialState
      [Mounted (ProbeReturns True), Clicked (SetPurchaseType Subscription) signedInEnv]
     = Some (readyState\<lparr>purchaseType := Subscription\<rparr>)
   \<and> resolveProduct [sampleProduct] (ascii ''p1'') = Some sampleProduct
   \<and> stock sampleProduct \<le> 0
   \<and> disabled (checkoutButton (renderDetail sampleProduct (user signedInEnv)
        (readyState\<lparr>purchaseType := Subscription\<rparr>)))
   \<and> label (checkoutButton (renderDetail sampleProduct (user signedInEnv)
        (readyState\<lparr>purchaseType := Subscription\<rparr>))) = outOfStockLabel"
proof -
  have p: "resolveProduct [sampleProduct] (ascii ''p1'') = Some sampleProduct"
    by (simp add: resolveProduct_def sampleProduct_def)
  have i: "isSubscription sampleProduct" "stock sampleProduct \<le> 0"
    by (simp_all add: sampleProduct_def)
  have r: "run [sampleProduct] (ascii ''p1'') initialState
      [Mounted (ProbeReturns True), Clicked (SetPurchaseType Subscription) signedInEnv]
     = Some (readyState\<lparr>purchaseType := Subscription\<rparr>)"
    by (simp add: clickable_detail [OF p] i readyState_def)
  show ?thesis
    using checkout_control_guarded_by_stock_and_loading [OF r p, of "user signedInEnv"] p i r
    by simp
qed

subsection \<open>The price display\<close>

text \<open>
  In subscription mode, the monthly price shown for an eligible product is its
  subscription price when it has one.
\<close>

lemma monthly_price_shown_when_present:
  assumes "isSubscription p" and "purchaseType s = Subscription"
    and "subscriptionPrice p = Some sp"
  shows "monthlyPriceShown (renderDetail p u s) = Some sp"
  using assms by (simp add: renderDetail_def)

text \<open>
  C1. For a product that is eligible for subscription and has no subscription price, the
  price display in subscription mode should fall back to the base price. Here it does
  not: after the click on the subscription mode, the view shows the base price 1000 and,
  as the monthly price, the amount 0 of line 214, while the request of lines 113 to 115
  charges the base price 1000 for the same product and mode.
\<close>

theorem monthly_price_display_falls_back_to_zero:
  "isSubscription sampleProduct \<and> subscriptionPrice sampleProduct = None
   \<and> step [sampleProduct] (ascii ''p1'') initialState
        (Clicked (SetPurchaseType Subscription) signedInEnv) = Some subscriptionState
   \<and> priceShown (renderDetail sampleProduct (user signedInEnv) subscriptionState) = 1000
   \<and> monthlyPriceShown (renderDetail sampleProduct (user signedInEnv) subscriptionState) = Some 0
   \<and> checkoutPrice sampleProduct (purchaseType subscriptionState) = 1000"
proof -
  have p: "resolveProduct [sampleProduct] (ascii ''p1'') = Some sampleProduct"
    by (simp add: resolveProduct_def sampleProduct_def)
  have i: "isSubscription sampleProduct" "subscriptionPrice sampleProduct = None"
    "price sampleProduct = 1000"
    by (simp_all add: sampleProduct_def)
  have "step [sampleProduct] (ascii ''p1'') initialState
        (Clicked (SetPurchaseType Subscription) signedInEnv) = Some subscriptionState"
    by (simp add: clickable_detail [OF p] i subscriptionState_def)
  then show ?thesis
    using i by (simp add: renderDetail_def checkoutPrice_def subscriptionState_def)
qed

end
